theory Spec2Isabelle
  imports Main "HOL-Library.AList"
begin

section \<open>JavaScript values\<close>

text \<open>
  The cache snapshots handled by \<^verbatim>\<open>apolloClient.ts\<close> are JSON-shaped JavaScript
  values. A plain object is the list of its own enumerable entries in insertion order;
  a JavaScript object never holds a key twice, which \<open>wf_val\<close> states for every level
  of a value. Numbers only occur as opaque scalars here (the program tests them for
  truthiness and copies them), so they are integers. The keys of an object are its own
  keys: names inherited from \<^verbatim>\<open>Object.prototype\<close> are not part of the model.
\<close>

datatype jsval =
    Undefined
  | Null
  | Bool bool
  | Num int
  | Str string
  | Arr "jsval list"
  | Obj "(string \<times> jsval) list"

type_synonym jsobject = "(string \<times> jsval) list"

text \<open>The conversion to boolean applied by \<^verbatim>\<open>if (x)\<close>, \<^verbatim>\<open>!x\<close> and \<^verbatim>\<open>x || y\<close>.\<close>

fun truthy :: "jsval \<Rightarrow> bool" where
  "truthy Undefined = False"
| "truthy Null = False"
| "truthy (Bool b) = b"
| "truthy (Num n) = (n \<noteq> 0)"
| "truthy (Str s) = (s \<noteq> [])"
| "truthy (Arr xs) = True"
| "truthy (Obj kvs) = True"


section \<open>The merge called by initializeApollo\<close>


fun isMergeableObject :: "jsval \<Rightarrow> bool" where
  "isMergeableObject (Arr xs) = True"
| "isMergeableObject (Obj kvs) = True"
| "isMergeableObject v = False"

fun emptyTarget :: "jsval \<Rightarrow> jsval" where
  "emptyTarget (Arr xs) = Arr []"
| "emptyTarget v = Obj []"

fun ownEntries :: "jsval \<Rightarrow> jsobject" where
  "ownEntries (Obj kvs) = kvs"
| "ownEntries v = []"

definition overwriteMerge :: "jsval list \<Rightarrow> jsval list \<Rightarrow> jsval list" where
  "overwriteMerge target source = source"

fun cloneUnlessOtherwiseSpecified :: "jsval \<Rightarrow> jsval" where
  "cloneUnlessOtherwiseSpecified (Obj kvs) =
     Obj (fold (\<lambda>(k, v) destination.
            AList.update k (cloneUnlessOtherwiseSpecified v) destination) kvs [])"
| "cloneUnlessOtherwiseSpecified (Arr xs) = Arr (overwriteMerge [] xs)"
| "cloneUnlessOtherwiseSpecified v = v"

fun deepmerge :: "jsval \<Rightarrow> jsval \<Rightarrow> jsval"
  and mergeObject :: "jsobject \<Rightarrow> jsobject \<Rightarrow> jsobject" where
  "deepmerge target (Arr ys) =
     (case target of
        Arr xs \<Rightarrow> Arr (overwriteMerge xs ys)
      | _ \<Rightarrow> cloneUnlessOtherwiseSpecified (Arr ys))"
| "deepmerge target (Obj skvs) =
     (case target of
        Arr xs \<Rightarrow> cloneUnlessOtherwiseSpecified (Obj skvs)
      | _ \<Rightarrow> Obj (mergeObject (ownEntries target) skvs))"
| "mergeObject tkvs skvs =
     fold (\<lambda>(k, sv) destination.
        AList.update k
          (if k \<in> fst ` set tkvs \<and> isMergeableObject sv
           then deepmerge (the (map_of tkvs k)) sv
           else cloneUnlessOtherwiseSpecified sv) destination)
       skvs
       (fold (\<lambda>(k, tv) destination.
          AList.update k (cloneUnlessOtherwiseSpecified tv) destination) tkvs [])"

section \<open>Module state and start-up of apolloClient.ts\<close>

text \<open>
  The module reads two environment variables and the global \<^verbatim>\<open>window\<close>. On a server
  (Node.js) no global of that name is declared, and evaluating the bare identifier raises a
  \<^verbatim>\<open>ReferenceError\<close>, while \<^verbatim>\<open>typeof window\<close> is \<^verbatim>\<open>'undefined'\<close> without raising.
  In a browser \<^verbatim>\<open>window\<close> is declared and holds an object.
\<close>

datatype error = Error string | ReferenceError | TypeError | RangeError

datatype window_binding = NotDeclared | DeclaredAs jsval

fun typeof_window_undefined :: "window_binding \<Rightarrow> bool" where
  "typeof_window_undefined NotDeclared = True"
| "typeof_window_undefined (DeclaredAs v) = (v = Undefined)"

record process_env =
  NEXT_PUBLIC_WORDPRESS_API_URL :: "string option"
  WORDPRESS_API_URL :: "string option"

record client =
  ssrMode :: bool
  uri :: string
  cache :: jsobject

text \<open>
  Clients are objects with identity: they live in \<open>clients\<close> and are referred to by
  their index. \<open>apolloClient\<close> is the module-level variable of line 11, \<open>None\<close> while it
  is still \<^verbatim>\<open>undefined\<close>.
\<close>

record module_state =
  API_URL :: string
  apolloClient :: "nat option"
  clients :: "client list"

definition APOLLO_STATE_PROP_NAME :: string where
  "APOLLO_STATE_PROP_NAME = ''__APOLLO_STATE__''"

definition client_message :: string where
  "client_message = ''NEXT_PUBLIC_WORDPRESS_API_URL environment variable is not set. Please set it to your WPGraphQL endpoint if you wish to use client-side requests.''"

definition server_message :: string where
  "server_message = ''WORDPRESS_API_URL and NEXT_PUBLIC_WORDPRESS_API_URL environment variables are not set. Please set WORDPRESS_API_URL (or NEXT_PUBLIC_WORDPRESS_API_URL if you wish to also use client-side requests) to your WPGraphQL endpoint.''"

text \<open>Line 10: \<^verbatim>\<open>a || b\<close> is \<open>a\<close> when \<open>a\<close> is set and not empty, else \<open>b\<close>.\<close>

definition env_API_URL :: "process_env \<Rightarrow> string option" where
  "env_API_URL env =
     (case NEXT_PUBLIC_WORDPRESS_API_URL env of
        Some s \<Rightarrow> if s \<noteq> [] then Some s else WORDPRESS_API_URL env
      | None \<Rightarrow> WORDPRESS_API_URL env)"

text \<open>Lines 10 to 19: loading the module either raises or leaves the initial state.\<close>

definition load_module :: "window_binding \<Rightarrow> process_env \<Rightarrow> error + module_state" where
  "load_module window env =
     (case env_API_URL env of
        Some (c # cs) \<Rightarrow>
          Inr \<lparr>API_URL = c # cs, apolloClient = None, clients = []\<rparr>
      | _ \<Rightarrow>
          (case window of
             NotDeclared \<Rightarrow> Inl ReferenceError
           | DeclaredAs w \<Rightarrow>
               if truthy w then Inl (Error client_message)
               else Inl (Error server_message)))"

section \<open>createApolloClient and initializeApollo\<close>

definition createApolloClient :: "window_binding \<Rightarrow> module_state \<Rightarrow> nat \<times> module_state" where
  "createApolloClient window st =
     (length (clients st),
      st\<lparr>clients := clients st @
            [\<lparr>ssrMode = typeof_window_undefined window, uri = API_URL st, cache = []\<rparr>]\<rparr>)"

text \<open>
  \<^verbatim>\<open>extract\<close> and \<^verbatim>\<open>restore\<close> are the cache primitives of the client library
  (\<open>extract\<close> is a command name of the prover, hence the prefix): the first returns the
  contents of the cache, the second replaces them by the object it is given.
\<close>

definition cache_extract :: "nat \<Rightarrow> module_state \<Rightarrow> jsobject" where
  "cache_extract c st = cache (clients st ! c)"

definition cache_restore :: "nat \<Rightarrow> jsval \<Rightarrow> module_state \<Rightarrow> module_state" where
  "cache_restore c data st =
     st\<lparr>clients := (clients st)[c := (clients st ! c)\<lparr>cache := ownEntries data\<rparr>]\<rparr>"

text \<open>
  Lines 63 to 90. A missing argument is \<open>Undefined\<close> and takes the default \<^verbatim>\<open>null\<close>.
\<close>

definition initializeApollo ::
  "window_binding \<Rightarrow> jsval \<Rightarrow> module_state \<Rightarrow> nat \<times> module_state" where
  "initializeApollo window arg st =
     (let initialState = (if arg = Undefined then Null else arg);
          (apolloClient', st1) =
             (case apolloClient st of
                Some c \<Rightarrow> (c, st)
              | None \<Rightarrow> createApolloClient window st);
          st2 =
             (if truthy initialState then
                let existingCache = cache_extract apolloClient' st1;
                    data = deepmerge initialState (Obj existingCache)
                in cache_restore apolloClient' data st1
              else st1)
      in if typeof_window_undefined window then (apolloClient', st2)
         else if apolloClient st2 = None
              then (apolloClient', st2\<lparr>apolloClient := Some apolloClient'\<rparr>)
              else (apolloClient', st2))"




section \<open>Page props: addApolloState and useApollo\<close>

text \<open>
  \<^verbatim>\<open>addApolloState\<close> writes into the object it is given, so page props live in a
  store: \<open>Ref p\<close> is the object at address \<open>p\<close>, whose entries hold values of the same
  kind, and every object the program may write to is a \<open>Ref\<close>. \<open>Val v\<close> is a value
  without an address, which nothing writes to: a primitive, or immutable data such as the
  snapshot that \<^verbatim>\<open>extract\<close> returned. The file is an ES module, hence strict-mode
  code, where adding a property to a primitive (or to frozen data) raises a
  \<^verbatim>\<open>TypeError\<close>.
\<close>

datatype hval = Val jsval | Ref nat

type_synonym store = "(string \<times> hval) list list"

fun truthy_h :: "hval \<Rightarrow> bool" where
  "truthy_h (Val v) = truthy v"
| "truthy_h (Ref p) = True"

definition is_nullish :: "hval \<Rightarrow> bool" where
  "is_nullish h = (h = Val Undefined \<or> h = Val Null)"

definition fields_at :: "store \<Rightarrow> nat \<Rightarrow> (string \<times> hval) list" where
  "fields_at st p = (if p < length st then st ! p else [])"

text \<open>
  Reading a property of a value that is neither \<^verbatim>\<open>null\<close> nor \<^verbatim>\<open>undefined\<close>. The two
  keys the program reads, \<^verbatim>\<open>props\<close> and \<^verbatim>\<open>__APOLLO_STATE__\<close>, are no array index and
  not \<^verbatim>\<open>length\<close>, so an array, a string and every other primitive have no such property.
\<close>

fun get_prop :: "store \<Rightarrow> hval \<Rightarrow> string \<Rightarrow> hval" where
  "get_prop st (Ref p) k =
     (case map_of (fields_at st p) k of Some h \<Rightarrow> h | None \<Rightarrow> Val Undefined)"
| "get_prop st (Val (Obj kvs)) k =
     (case map_of kvs k of Some v \<Rightarrow> Val v | None \<Rightarrow> Val Undefined)"
| "get_prop st (Val v) k = Val Undefined"

text \<open>Lines 110 to 116; \<open>pageProps?.props\<close> is \<^verbatim>\<open>undefined\<close> on a nullish \<open>pageProps\<close>.\<close>

definition addApolloState :: "client \<Rightarrow> hval \<Rightarrow> store \<Rightarrow> (error + hval) \<times> store" where
  "addApolloState client pageProps st =
     (let props = (if is_nullish pageProps then Val Undefined
                   else get_prop st pageProps ''props'')
      in if truthy_h props then
           (case props of
              Ref q \<Rightarrow>
                (Inr pageProps,
                 st[q := AList.update APOLLO_STATE_PROP_NAME (Val (Obj (cache client)))
                           (fields_at st q)])
            | Val v \<Rightarrow> (Inl TypeError, st))
         else (Inr pageProps, st))"

text \<open>
  The snapshot handed to \<open>initializeApollo\<close> is read as a tree. The recursion of the
  merge over an object graph that refers back to itself does not end and exhausts the call
  stack (\<^verbatim>\<open>RangeError\<close>); a graph without a cycle is no deeper than the store has objects,
  which bounds the descent.
\<close>

fun reify :: "nat \<Rightarrow> store \<Rightarrow> hval \<Rightarrow> jsval option"
  and reify_fields :: "nat \<Rightarrow> store \<Rightarrow> (string \<times> hval) list \<Rightarrow> jsobject option" where
  "reify 0 st h = None"
| "reify (Suc n) st (Val v) = Some v"
| "reify (Suc n) st (Ref q) = map_option Obj (reify_fields n st (fields_at st q))"
| "reify_fields n st [] = Some []"
| "reify_fields n st ((k, h) # kvs) =
     (case reify n st h of
        None \<Rightarrow> None
      | Some v \<Rightarrow>
          (case reify_fields n st kvs of
             None \<Rightarrow> None
           | Some r \<Rightarrow> Some ((k, v) # r)))"


section \<open>Properties of the merge\<close>











declare mergeObject.simps [simp del]


















lemma clone_is_merge_into_emptyTarget:
  "isMergeableObject v \<Longrightarrow> cloneUnlessOtherwiseSpecified v = deepmerge (emptyTarget v) v"
  by (cases v) (simp_all add: mergeObject.simps)





section \<open>Properties of initializeApollo\<close>







lemma load_module_absent:
  "env_API_URL env = None \<or> env_API_URL env = Some [] \<Longrightarrow> \<exists>e. load_module w env = Inl e"
  by (cases w) (auto simp: load_module_def)

lemma load_module_declared_falsy:
  "env_API_URL env = None \<Longrightarrow> \<not> truthy v \<Longrightarrow>
   load_module (DeclaredAs v) env = Inl (Error server_message)"
  by (simp add: load_module_def)







section \<open>Properties of addApolloState\<close>

lemma fields_at_update:
  "fields_at (st[q := x]) r = (if r = q \<and> q < length st then x else fields_at st r)"
  by (simp add: fields_at_def)

lemma addApolloState_object_props:
  assumes "\<not> is_nullish pageProps" and "get_prop st pageProps ''props'' = Ref q"
  shows "addApolloState client pageProps st =
     (Inr pageProps,
      st[q := AList.update APOLLO_STATE_PROP_NAME (Val (Obj (cache client))) (fields_at st q)])"
  using assms by (simp add: addApolloState_def)

lemma addApolloState_falsy_props:
  assumes "is_nullish pageProps \<or> \<not> truthy_h (get_prop st pageProps ''props'')"
  shows "addApolloState client pageProps st = (Inr pageProps, st)"
  using assms by (auto simp add: addApolloState_def)

lemma addApolloState_primitive_props:
  assumes "\<not> is_nullish pageProps" and "get_prop st pageProps ''props'' = Val v" and "truthy v"
  shows "addApolloState client pageProps st = (Inl TypeError, st)"
  using assms by (simp add: addApolloState_def)




section \<open>The claims\<close>






text \<open>
  C3. With neither variable set, loading the module on a server does not produce the
  server message of line 17: \<^verbatim>\<open>if (window)\<close> on line 14 raises a
  \<^verbatim>\<open>ReferenceError\<close> first. In the browser the client message of line 15 is produced,
  and the two messages differ.
\<close>

theorem C3_server_missing_config_raises_ReferenceError:
  "load_module NotDeclared
      \<lparr>NEXT_PUBLIC_WORDPRESS_API_URL = None, WORDPRESS_API_URL = None\<rparr>
     = Inl ReferenceError \<and>
   load_module (DeclaredAs (Obj []))
      \<lparr>NEXT_PUBLIC_WORDPRESS_API_URL = None, WORDPRESS_API_URL = None\<rparr>
     = Inl (Error client_message) \<and>
   client_message \<noteq> server_message"
  by (simp add: load_module_def env_API_URL_def client_message_def server_message_def)





text \<open>
  C6. Without a snapshot (\<^verbatim>\<open>undefined\<close>, hence the default \<^verbatim>\<open>null\<close>, or an explicit
  \<^verbatim>\<open>null\<close>) the call returns a value in every state: a memoized client is returned with
  the module state unchanged, and otherwise the client is the one
  \<open>createApolloClient\<close> makes, with its empty cache, memoized in the browser only.
\<close>

theorem C6_absent_snapshot:
  "initializeApollo w Undefined st =
     (case apolloClient st of
        Some m \<Rightarrow> (m, st)
      | None \<Rightarrow>
          (length (clients st),
           st\<lparr>apolloClient :=
                 (if typeof_window_undefined w then None else Some (length (clients st))),
              clients := clients st @
                 [\<lparr>ssrMode = typeof_window_undefined w, uri = API_URL st, cache = []\<rparr>]\<rparr>)) \<and>
   initializeApollo w Null st = initializeApollo w Undefined st"
  by (cases "apolloClient st")
     (simp_all add: initializeApollo_def createApolloClient_def Let_def)

text \<open>
  C6 on two inputs: a memoized client holding \<open>Post:1\<close> comes back with the state as it
  was, and a first server call returns a new client with an empty cache.
\<close>

theorem C6_absent_snapshot_witness:
  "initializeApollo (DeclaredAs (Obj [])) Undefined
     \<lparr>API_URL = ''u'', apolloClient = Some 0,
      clients = [\<lparr>ssrMode = False, uri = ''u'',
                  cache = [(''Post:1'', Obj [(''title'', Str ''A'')])]\<rparr>]\<rparr>
   = (0, \<lparr>API_URL = ''u'', apolloClient = Some 0,
          clients = [\<lparr>ssrMode = False, uri = ''u'',
                      cache = [(''Post:1'', Obj [(''title'', Str ''A'')])]\<rparr>]\<rparr>) \<and>
   initializeApollo NotDeclared Undefined
     \<lparr>API_URL = ''u'', apolloClient = None, clients = []\<rparr>
   = (0, \<lparr>API_URL = ''u'', apolloClient = None,
          clients = [\<lparr>ssrMode = True, uri = ''u'', cache = []\<rparr>]\<rparr>)"
  using C6_absent_snapshot[of "DeclaredAs (Obj [])"
      "\<lparr>API_URL = ''u'', apolloClient = Some 0,
        clients = [\<lparr>ssrMode = False, uri = ''u'',
                    cache = [(''Post:1'', Obj [(''title'', Str ''A'')])]\<rparr>]\<rparr>"]
    C6_absent_snapshot[of NotDeclared "\<lparr>API_URL = ''u'', apolloClient = None, clients = []\<rparr>"]
  by simp




text \<open>
  C8. \<open>addApolloState\<close> allocates no object, changes no entry of any object other than
  the \<^verbatim>\<open>__APOLLO_STATE__\<close> entry of the object that \<open>pageProps.props\<close> refers to, and
  what it returns is the reference it was given; it fails to return only on a truthy
  \<open>props\<close> that is no object, and then the store is unchanged.
\<close>

theorem C8_frame:
  assumes "addApolloState client pageProps st = (res, st')"
  shows "length st' = length st \<and>
    (\<forall>r k. \<not> (get_prop st pageProps ''props'' = Ref r \<and> k = APOLLO_STATE_PROP_NAME) \<longrightarrow>
       map_of (fields_at st' r) k = map_of (fields_at st r) k) \<and>
    (res = Inr pageProps \<or>
     (res = Inl TypeError \<and> st' = st \<and>
      (\<exists>v. get_prop st pageProps ''props'' = Val v \<and> truthy v)))"
proof (cases "is_nullish pageProps \<or> \<not> truthy_h (get_prop st pageProps ''props'')")
  case True
  then show ?thesis using assms addApolloState_falsy_props[OF True, of client] by simp
next
  case False
  then have n: "\<not> is_nullish pageProps" and t: "truthy_h (get_prop st pageProps ''props'')"
    by simp_all
  show ?thesis
  proof (cases "get_prop st pageProps ''props''")
    case (Val v)
    then have "truthy v" using t by simp
    then show ?thesis
      using assms addApolloState_primitive_props[OF n Val, of client] Val by simp
  next
    case (Ref q)
    have r: "res = Inr pageProps" and
      s: "st' = st[q := AList.update APOLLO_STATE_PROP_NAME (Val (Obj (cache client)))
                          (fields_at st q)]"
      using assms addApolloState_object_props[OF n Ref, of client] by simp_all
    have "map_of (fields_at st' r) k = map_of (fields_at st r) k"
      if "\<not> (q = r \<and> k = APOLLO_STATE_PROP_NAME)" for r k
      using that by (auto simp add: s fields_at_update update_conv')
    then show ?thesis using r s Ref by simp
  qed
qed

text \<open>
  C8 on an input: for \<open>{props: {preview: false}, revalidate: 1}\<close> the same reference is
  returned, no object is added, and \<open>preview\<close> and \<open>revalidate\<close> keep their values.
\<close>

theorem C8_frame_witness:
  "fst (addApolloState \<lparr>ssrMode = True, uri = ''u'', cache = []\<rparr> (Ref 0)
     [[(''props'', Ref 1), (''revalidate'', Val (Num 1))], [(''preview'', Val (Bool False))]])
   = Inr (Ref 0) \<and>
   length (snd (addApolloState \<lparr>ssrMode = True, uri = ''u'', cache = []\<rparr> (Ref 0)
     [[(''props'', Ref 1), (''revalidate'', Val (Num 1))], [(''preview'', Val (Bool False))]]))
   = 2 \<and>
   map_of (fields_at (snd (addApolloState \<lparr>ssrMode = True, uri = ''u'', cache = []\<rparr> (Ref 0)
     [[(''props'', Ref 1), (''revalidate'', Val (Num 1))], [(''preview'', Val (Bool False))]])) 1)
     ''preview'' = Some (Val (Bool False)) \<and>
   map_of (fields_at (snd (addApolloState \<lparr>ssrMode = True, uri = ''u'', cache = []\<rparr> (Ref 0)
     [[(''props'', Ref 1), (''revalidate'', Val (Num 1))], [(''preview'', Val (Bool False))]])) 0)
     ''revalidate'' = Some (Val (Num 1))"
proof -
  let ?c = "\<lparr>ssrMode = True, uri = ''u'', cache = []\<rparr>"
  let ?st = "[[(''props'', Ref 1), (''revalidate'', Val (Num 1))],
              [(''preview'', Val (Bool False))]]"
  let ?r = "addApolloState ?c (Ref 0) ?st"
  have h: "?r = (fst ?r, snd ?r)" by simp
  note t = C8_frame[OF h]
  have p: "get_prop ?st (Ref 0) ''props'' = Ref 1" by (simp add: fields_at_def)
  have l: "length (snd ?r) = 2" using t by simp
  have f: "\<not> (get_prop ?st (Ref 0) ''props'' = Ref r \<and> k = APOLLO_STATE_PROP_NAME) \<Longrightarrow>
       map_of (fields_at (snd ?r) r) k = map_of (fields_at ?st r) k" for r k
    using t by blast
  have f1: "map_of (fields_at (snd ?r) 1) ''preview'' = Some (Val (Bool False))"
    using f[of 1 "''preview''"] by (simp add: fields_at_def APOLLO_STATE_PROP_NAME_def)
  have f0: "map_of (fields_at (snd ?r) 0) ''revalidate'' = Some (Val (Num 1))"
    using f[of 0 "''revalidate''"] by (simp add: fields_at_def APOLLO_STATE_PROP_NAME_def)
  have r: "fst ?r = Inr (Ref 0)" using t p by auto
  show ?thesis using r l f1 f0 by blast
qed






end
